theory Spec2Isabelle
  imports Main
begin

section \<open>The gene-length extractor of presentation.py\<close>

text \<open>
  The report script \<^verbatim>\<open>presentation.py\<close> contains one routine with logic of its own,
  \<^verbatim>\<open>extract_gene_lengths\<close> (lines 187 to 197), and three module-level statements that
  call it and filter its result (lines 199 to 201):
  \<^verbatim>\<open>
  file_path = "run_tres.predict"

  def extract_gene_lengths(file_path):
      gene_lengths = []
      with open(file_path, 'r') as file:
          for line in file:
              if not line.startswith(">"):
                  fields = line.strip().split()
                  start = int(fields[1])
                  end = int(fields[2])
                  gene_length = abs(end - start) + 1
                  gene_lengths.append(gene_length)
      return gene_lengths

  predicted_gene_lengths = extract_gene_lengths(file_path)
  df = pd.DataFrame(predicted_gene_lengths, columns=["Predicted Gene Length"])
  df = df[df["Predicted Gene Length"] <= 100000]
  \<close>
  A Python \<^verbatim>\<open>str\<close> is modelled as a \<^typ>\<open>string\<close>: the character with code \<open>n\<close>
  stands for the code point \<open>n\<close>, so the model covers texts whose code points are
  below 256. In that range the decimal digits are \<^verbatim>\<open>0\<close> to \<^verbatim>\<open>9\<close> only. Python's
  integers are unbounded and are modelled by \<^typ>\<open>int\<close>.
\<close>

subsection \<open>Exceptions\<close>

text \<open>
  The exceptions the routine can raise. \<^verbatim>\<open>open\<close> raises \<^verbatim>\<open>ValueError\<close> on a path with
  a NUL character and otherwise the subclass of \<^verbatim>\<open>OSError\<close> that belongs to the error
  the operating system reports, or plain \<^verbatim>\<open>OSError\<close>; \<^verbatim>\<open>fields[i]\<close> out of range
  raises \<^verbatim>\<open>IndexError\<close>; \<^verbatim>\<open>int\<close> on a string that is no integer literal raises
  \<^verbatim>\<open>ValueError\<close>. A computation that can raise returns \<open>Inl\<close> of the exception.
\<close>

datatype py_error =
  FileNotFoundError | IsADirectoryError | NotADirectoryError | PermissionError | OSError
  | IndexError | ValueError

subsection \<open>The string methods the routine calls\<close>

text \<open>\<^verbatim>\<open>str.isspace\<close> on one character, for code points below 256.\<close>

definition is_space :: "char \<Rightarrow> bool" where
  "is_space c \<longleftrightarrow>
     c \<in> set [CHR 0x09, CHR 0x0A, CHR 0x0B, CHR 0x0C, CHR 0x0D,
              CHR 0x1C, CHR 0x1D, CHR 0x1E, CHR 0x1F, CHR 0x20, CHR 0x85, CHR 0xA0]"

text \<open>\<^verbatim>\<open>s.startswith(prefix)\<close>.\<close>

definition str_startswith :: "string \<Rightarrow> string \<Rightarrow> bool" where
  "str_startswith s prefix \<longleftrightarrow> take (length prefix) s = prefix"

text \<open>\<^verbatim>\<open>s.strip()\<close>: whitespace is removed at both ends.\<close>

definition str_strip :: "string \<Rightarrow> string" where
  "str_strip s = rev (dropWhile is_space (rev (dropWhile is_space s)))"

text \<open>
  \<^verbatim>\<open>s.split()\<close> with no separator: the maximal runs of non-whitespace characters, in
  order. \<open>split_from cur s\<close> scans \<open>s\<close> with the field \<open>cur\<close> read so far.
\<close>

fun split_from :: "string \<Rightarrow> string \<Rightarrow> string list" where
  "split_from cur [] = (if cur = [] then [] else [cur])"
| "split_from cur (c # cs) =
     (if is_space c then (if cur = [] then split_from [] cs else cur # split_from [] cs)
      else split_from (cur @ [c]) cs)"

definition str_split :: "string \<Rightarrow> string list" where
  "str_split s = split_from [] s"

text \<open>
  \<^verbatim>\<open>xs[i]\<close> for an index \<open>i \<ge> 0\<close> (the routine only uses the literals 1 and 2):
  out of range raises \<^verbatim>\<open>IndexError\<close>.
\<close>

definition py_index :: "'a list \<Rightarrow> nat \<Rightarrow> py_error + 'a" where
  "py_index xs i = (if i < length xs then Inr (xs ! i) else Inl IndexError)"

subsection \<open>The integer constructor\<close>

text \<open>
  \<^verbatim>\<open>int(s)\<close> on a string, base 10: whitespace around the literal is dropped, then an
  optional sign, then digits, where single underscores may stand between two digits.
  Anything else raises \<^verbatim>\<open>ValueError\<close>, and so do more than 4300 digits (the
  interpreter's default limit for the conversion). The whitespace \<^verbatim>\<open>int\<close> accepts
  is narrower than that of \<^verbatim>\<open>str.isspace\<close>: the separators \<^verbatim>\<open>0x1C\<close> to \<^verbatim>\<open>0x1F\<close>
  are rejected.
\<close>

definition int_space :: "char \<Rightarrow> bool" where
  "int_space c \<longleftrightarrow>
     c \<in> set [CHR 0x09, CHR 0x0A, CHR 0x0B, CHR 0x0C, CHR 0x0D, CHR 0x20, CHR 0x85, CHR 0xA0]"

definition is_digit :: "char \<Rightarrow> bool" where
  "is_digit c \<longleftrightarrow> c \<in> set ''0123456789''"

definition digit_or_underscore :: "char \<Rightarrow> bool" where
  "digit_or_underscore c \<longleftrightarrow> is_digit c \<or> c = CHR ''_''"

fun double_underscore :: "string \<Rightarrow> bool" where
  "double_underscore (a # b # cs) =
     ((a = CHR ''_'' \<and> b = CHR ''_'') \<or> double_underscore (b # cs))"
| "double_underscore _ = False"

definition decimal_value :: "string \<Rightarrow> int" where
  "decimal_value ds = foldl (\<lambda>acc c. 10 * acc + (of_char c - 48)) 0 ds"

definition int_max_str_digits :: nat where
  "int_max_str_digits = 4300"

definition py_int :: "string \<Rightarrow> py_error + int" where
  "py_int s =
     (let t = dropWhile int_space s;
          negative = (case t of [] \<Rightarrow> False | c # _ \<Rightarrow> c = CHR ''-'');
          u = (case t of [] \<Rightarrow> [] | c # r \<Rightarrow> if c = CHR ''-'' \<or> c = CHR ''+'' then r else t);
          body = takeWhile digit_or_underscore u;
          rest = dropWhile digit_or_underscore u;
          digits = filter is_digit body;
          malformed = (case body of [] \<Rightarrow> True
                       | b # _ \<Rightarrow> b = CHR ''_'' \<or> last body = CHR ''_'' \<or> double_underscore body)
      in if malformed \<or> \<not> list_all int_space rest \<or> int_max_str_digits < length digits
         then Inl ValueError
         else Inr (if negative then - decimal_value digits else decimal_value digits))"

subsection \<open>Reading a text file\<close>

text \<open>
  The world the routine runs in: what the operating system answers when a path is
  opened for reading, and the paths of the file objects that are open. The answer
  is the text of the file, or the reason of the failure: no such file or directory
  (\<open>ENOENT\<close>), the path is a directory (\<open>EISDIR\<close>), a component of the path that should
  be a directory is none (\<open>ENOTDIR\<close>), no permission (\<open>EACCES\<close>, \<open>EPERM\<close>), or any other
  error number (\<open>Other_errno\<close>: a name that is too long, too many links, no file
  descriptor left). A file that opens is taken to be read and decoded to its end.
\<close>

datatype os_failure = ENOENT | EISDIR | ENOTDIR | EACCES | EPERM | Other_errno

record world =
  os_open :: "string \<Rightarrow> os_failure + string"
  open_files :: "string list"

text \<open>The exception that Python raises for a failure of the operating system.\<close>

definition os_exception :: "os_failure \<Rightarrow> py_error" where
  "os_exception f =
     (case f of
        ENOENT \<Rightarrow> FileNotFoundError
      | EISDIR \<Rightarrow> IsADirectoryError
      | ENOTDIR \<Rightarrow> NotADirectoryError
      | EACCES \<Rightarrow> PermissionError
      | EPERM \<Rightarrow> PermissionError
      | Other_errno \<Rightarrow> OSError)"

text \<open>
  What \<^verbatim>\<open>open(path, 'r')\<close> comes to: the text it will read, or the exception. A path
  with a NUL character is refused before the operating system is asked.
\<close>

definition open_outcome :: "world \<Rightarrow> string \<Rightarrow> py_error + string" where
  "open_outcome w path =
     (if CHR 0x00 \<in> set path then Inl ValueError
      else (case os_open w path of
              Inl f \<Rightarrow> Inl (os_exception f)
            | Inr text \<Rightarrow> Inr text))"

text \<open>
  The files of a world: the text of the file that a path names, for the paths that
  \<^verbatim>\<open>open\<close> can read.
\<close>

definition files :: "world \<Rightarrow> string \<Rightarrow> string option" where
  "files w path = (case open_outcome w path of Inl _ \<Rightarrow> None | Inr text \<Rightarrow> Some text)"

text \<open>
  A file opened with mode \<^verbatim>\<open>'r'\<close> is read with universal newlines: \<^verbatim>\<open>\r\n\<close> and a lone
  \<^verbatim>\<open>\r\<close> arrive as \<^verbatim>\<open>\n\<close>. Iterating over the file yields its lines, each with its
  \<^verbatim>\<open>\n\<close>; the last line has none when the text does not end with a newline.
\<close>

fun universal_newlines :: "string \<Rightarrow> string" where
  "universal_newlines [] = []"
| "universal_newlines [c] = (if c = CHR 0x0D then [CHR 0x0A] else [c])"
| "universal_newlines (c # d # cs) =
     (if c = CHR 0x0D
      then (if d = CHR 0x0A then CHR 0x0A # universal_newlines cs
            else CHR 0x0A # universal_newlines (d # cs))
      else c # universal_newlines (d # cs))"

fun text_lines :: "string \<Rightarrow> string list" where
  "text_lines [] = []"
| "text_lines (c # cs) =
     (if c = CHR 0x0A then [c] # text_lines cs
      else (case text_lines cs of [] \<Rightarrow> [[c]] | l # ls \<Rightarrow> (c # l) # ls))"

definition file_lines :: "string \<Rightarrow> string list" where
  "file_lines text = text_lines (universal_newlines text)"

text \<open>
  \<^verbatim>\<open>open(path, 'r')\<close> raises the exception of its outcome, and registers the file object
  when there is none.
\<close>

definition open_r :: "world \<Rightarrow> string \<Rightarrow> py_error + (string \<times> world)" where
  "open_r w path =
     (case open_outcome w path of
        Inl e \<Rightarrow> Inl e
      | Inr text \<Rightarrow> Inr (text, w\<lparr>open_files := path # open_files w\<rparr>))"

definition close_file :: "world \<Rightarrow> string \<Rightarrow> world" where
  "close_file w path = w\<lparr>open_files := remove1 path (open_files w)\<rparr>"

subsection \<open>extract_gene_lengths\<close>

text \<open>
  The body of the loop for a line that is no header (lines 192 to 195). The
  statements run in order, so \<^verbatim>\<open>int(fields[1])\<close> is evaluated before \<^verbatim>\<open>fields[2]\<close>
  is read.
\<close>

definition gene_length :: "string \<Rightarrow> py_error + int" where
  "gene_length line =
     (let fields = str_split (str_strip line) in
      case py_index fields 1 of Inl e \<Rightarrow> Inl e | Inr f1 \<Rightarrow>
     (case py_int f1 of Inl e \<Rightarrow> Inl e | Inr start \<Rightarrow>
     (case py_index fields 2 of Inl e \<Rightarrow> Inl e | Inr f2 \<Rightarrow>
     (case py_int f2 of Inl e \<Rightarrow> Inl e | Inr end' \<Rightarrow>
        Inr (\<bar>end' - start\<bar> + 1)))))"

text \<open>The loop of lines 190 to 196, over the lines still to read and the list built so far.\<close>

fun gene_lengths_loop :: "string list \<Rightarrow> int list \<Rightarrow> py_error + int list" where
  "gene_lengths_loop [] gene_lengths = Inr gene_lengths"
| "gene_lengths_loop (line # rest) gene_lengths =
     (if \<not> str_startswith line ''>''
      then (case gene_length line of
              Inl e \<Rightarrow> Inl e
            | Inr g \<Rightarrow> gene_lengths_loop rest (gene_lengths @ [g]))
      else gene_lengths_loop rest gene_lengths)"

text \<open>
  The routine: the result or the exception, and the world it leaves. The \<^verbatim>\<open>with\<close>
  statement closes the file when its block is left, by \<^verbatim>\<open>return\<close> or by an exception.
\<close>

definition extract_gene_lengths :: "world \<Rightarrow> string \<Rightarrow> (py_error + int list) \<times> world" where
  "extract_gene_lengths w path =
     (case open_r w path of
        Inl e \<Rightarrow> (Inl e, w)
      | Inr (text, w') \<Rightarrow> (gene_lengths_loop (file_lines text) [], close_file w' path))"

subsection \<open>The caller\<close>

text \<open>
  Lines 185 and 199 to 201. A data frame with one column is a list of rows, each row
  its index label and its value; \<^verbatim>\<open>pd.DataFrame\<close> labels the rows 0, 1, 2 and so on,
  and selecting by a boolean mask keeps the rows where the mask holds, labels
  included. No statement around the call catches an exception.
\<close>

definition file_path :: string where
  "file_path = ''run_tres.predict''"

definition predicted_gene_lengths :: "world \<Rightarrow> (py_error + int list) \<times> world" where
  "predicted_gene_lengths w = extract_gene_lengths w file_path"

definition DataFrame :: "int list \<Rightarrow> (nat \<times> int) list" where
  "DataFrame values = zip [0 ..< length values] values"

definition length_mask :: "(nat \<times> int) list \<Rightarrow> bool list" where
  "length_mask rows = map (\<lambda>row. snd row \<le> 100000) rows"

definition select_rows :: "(nat \<times> int) list \<Rightarrow> bool list \<Rightarrow> (nat \<times> int) list" where
  "select_rows rows keep = map fst (filter snd (zip rows keep))"

definition df :: "world \<Rightarrow> py_error + (nat \<times> int) list" where
  "df w =
     (case fst (predicted_gene_lengths w) of
        Inl e \<Rightarrow> Inl e
      | Inr lengths \<Rightarrow> Inr (select_rows (DataFrame lengths) (length_mask (DataFrame lengths))))"

subsection \<open>Data lines and their coordinates\<close>

text \<open>
  The vocabulary of the format description: a header line starts with \<^verbatim>\<open>>\<close>, every
  other line is a data line; the fields of a line are its whitespace-separated words;
  a data line is well formed when it has at least three fields and the fields at
  indices 1 and 2 are integers, its start and end coordinates.
\<close>

definition line_fields :: "string \<Rightarrow> string list" where
  "line_fields line = str_split (str_strip line)"

definition coordinates :: "string \<Rightarrow> (int \<times> int) option" where
  "coordinates line =
     (let fields = line_fields line in
      if length fields < 3 then None
      else (case py_int (fields ! 1) of
              Inl _ \<Rightarrow> None
            | Inr start \<Rightarrow>
                (case py_int (fields ! 2) of Inl _ \<Rightarrow> None | Inr end' \<Rightarrow> Some (start, end'))))"

definition is_data_line :: "string \<Rightarrow> bool" where
  "is_data_line line \<longleftrightarrow> \<not> str_startswith line ''>''"

definition data_lines :: "string \<Rightarrow> string list" where
  "data_lines text = filter is_data_line (file_lines text)"

text \<open>
  Two lines agree on their coordinates when they are the same line, or when both are
  data lines whose fields at indices 1 and 2 are the same (or are missing in both):
  field 0 and the fields from index 3 on are free to differ.
\<close>

definition agree_on_coordinates :: "string \<Rightarrow> string \<Rightarrow> bool" where
  "agree_on_coordinates la lb \<longleftrightarrow>
     la = lb \<or>
     (is_data_line la \<and> is_data_line lb \<and>
      take 2 (drop 1 (line_fields la)) = take 2 (drop 1 (line_fields lb)))"

subsection \<open>Example worlds\<close>

text \<open>A world with a single file and no file object open.\<close>

definition one_file :: "string \<Rightarrow> string \<Rightarrow> world" where
  "one_file path text =
     \<lparr>os_open = (\<lambda>p. if p = path then Inr text else Inl ENOENT), open_files = []\<rparr>"

text \<open>The end-to-end scenario of the specification: a header and two data lines.\<close>

definition scenario_text :: string where
  "scenario_text = ''>scaffold1\<newline>CDS 1 300 + \<newline>CDS 500 250 -\<newline>''"

text \<open>A file whose third line stops after its first coordinate.\<close>

definition truncated_text :: string where
  "truncated_text = ''>scaffold1\<newline>CDS 1 300 +\<newline>CDS 5\<newline>CDS 7 9\<newline>''"

text \<open>A file with the lengths 100000, 100001 and 5.\<close>

definition threshold_text :: string where
  "threshold_text = ''g1 1 100000\<newline>g2 1 100001\<newline>g3 7 3\<newline>''"

text \<open>A world without any file.\<close>

definition no_files :: world where
  "no_files = \<lparr>os_open = (\<lambda>p. Inl ENOENT), open_files = []\<rparr>"

text \<open>A path with a NUL character.\<close>

definition nul_path :: string where
  "nul_path = [CHR ''a'', CHR 0x00, CHR ''b'']"

text \<open>A world where \<^verbatim>\<open>run_tres.predict\<close> is a directory.\<close>

definition directory_world :: world where
  "directory_world =
     \<lparr>os_open = (\<lambda>p. if p = ''run_tres.predict'' then Inl EISDIR else Inl ENOENT),
      open_files = []\<rparr>"

text \<open>A world with the scenario under another path, a second file, and a file object open.\<close>

definition busy_world :: world where
  "busy_world =
     \<lparr>os_open = (\<lambda>p. if p = ''b.predict'' then Inr scenario_text
                      else if p = ''other'' then Inr ''x'' else Inl ENOENT),
      open_files = [''other'']\<rparr>"

text \<open>A file of headers only.\<close>

definition headers_text :: string where
  "headers_text = ''>scaffold1\<newline>>scaffold2\<newline>''"

text \<open>A file with a gene of one base and a gene whose end lies before its start.\<close>

definition reversed_text :: string where
  "reversed_text = ''a 5 5\<newline>b 9 2\<newline>''"

text \<open>
  The scenario with other names in field 0, other spacing and more fields after the
  coordinates.
\<close>

definition relabelled_text :: string where
  "relabelled_text = ''>scaffold1\<newline>gene7  1 300 - 0.98 note\<newline>x 500 250\<newline>''"

text \<open>The scenario with a line of one space between its data lines.\<close>

definition blank_text :: string where
  "blank_text = ''>scaffold1\<newline>CDS 1 300 +\<newline> \<newline>CDS 500 250 -\<newline>''"

text \<open>A file whose first line has a word for its start coordinate, and whose second line is empty.\<close>

definition late_blank_text :: string where
  "late_blank_text = ''CDS one 300\<newline>\<newline>''"

section \<open>Properties\<close>

subsection \<open>The loop body and the loop\<close>

lemma py_int_error: "py_int s = Inl e \<Longrightarrow> e = ValueError"
  by (simp add: py_int_def Let_def split: if_splits)

lemma py_index_error: "py_index xs i = Inl e \<Longrightarrow> e = IndexError"
  by (simp add: py_index_def split: if_splits)

lemma gene_length_fields:
  assumes "2 < length (line_fields line)"
    and "py_int (line_fields line ! 1) = Inr s"
    and "py_int (line_fields line ! 2) = Inr e"
  shows "gene_length line = Inr (\<bar>e - s\<bar> + 1)"
  using assms by (simp add: gene_length_def line_fields_def py_index_def)

lemma gene_length_coordinates:
  "coordinates line = Some (s, e) \<Longrightarrow> gene_length line = Inr (\<bar>e - s\<bar> + 1)"
  by (rule gene_length_fields)
     (auto simp: coordinates_def Let_def split: if_splits sum.splits)

lemma gene_length_error: "gene_length line = Inl e \<Longrightarrow> e = IndexError \<or> e = ValueError"
  by (auto simp: gene_length_def Let_def split: sum.splits dest: py_int_error py_index_error)

lemma gene_length_malformed: "coordinates line = None \<Longrightarrow> isl (gene_length line)"
  by (auto simp: coordinates_def gene_length_def line_fields_def py_index_def Let_def
           split: if_splits sum.splits)

lemma gene_length_Inr:
  "gene_length line = Inr g \<Longrightarrow> \<exists>s e. coordinates line = Some (s, e) \<and> g = \<bar>e - s\<bar> + 1"
  by (auto simp: coordinates_def gene_length_def line_fields_def py_index_def Let_def
           split: if_splits sum.splits)

lemma loop_data_lines:
  "gene_lengths_loop (filter is_data_line ls) acc = gene_lengths_loop ls acc"
  by (induction ls arbitrary: acc) (auto simp: is_data_line_def split: sum.splits)

lemma loop_Inr:
  "gene_lengths_loop ls acc = Inr r \<Longrightarrow>
   \<exists>gs. r = acc @ gs \<and> list_all2 (\<lambda>l g. gene_length l = Inr g) (filter is_data_line ls) gs"
proof (induction ls arbitrary: acc)
  case Nil
  then show ?case by simp
next
  case (Cons l ls)
  show ?case
  proof (cases "is_data_line l")
    case False
    with Cons show ?thesis by (simp add: is_data_line_def)
  next
    case True
    with Cons.prems obtain g where g: "gene_length l = Inr g"
      and r: "gene_lengths_loop ls (acc @ [g]) = Inr r"
      by (auto simp: is_data_line_def split: sum.splits)
    from Cons.IH [OF r] obtain gs where "r = (acc @ [g]) @ gs"
      and "list_all2 (\<lambda>l g. gene_length l = Inr g) (filter is_data_line ls) gs"
      by blast
    with True g show ?thesis by simp
  qed
qed

lemma loop_first_error:
  assumes "\<forall>l \<in> set before. is_data_line l \<longrightarrow> \<not> isl (gene_length l)"
    and "is_data_line bad" and "gene_length bad = Inl e"
  shows "gene_lengths_loop (before @ bad # after) acc = Inl e"
  using assms
  by (induction before arbitrary: acc) (auto simp: is_data_line_def split: sum.splits)

lemma loop_some_error:
  assumes "l \<in> set ls" and "is_data_line l" and "isl (gene_length l)"
  shows "gene_lengths_loop ls acc = Inl IndexError \<or> gene_lengths_loop ls acc = Inl ValueError"
  using assms
proof (induction ls arbitrary: acc)
  case Nil
  then show ?case by simp
next
  case (Cons a ls)
  show ?case
  proof (cases "is_data_line a")
    case False
    with Cons show ?thesis by (auto simp: is_data_line_def)
  next
    case True
    show ?thesis
    proof (cases "gene_length a")
      case (Inl e)
      with True gene_length_error [OF Inl] show ?thesis by (auto simp: is_data_line_def)
    next
      case (Inr g)
      with Cons.prems have "l \<in> set ls" by auto
      from Cons.IH [OF this Cons.prems(2,3), of "acc @ [g]"] True Inr show ?thesis
        by (simp add: is_data_line_def)
    qed
  qed
qed

lemma close_open: "close_file (w\<lparr>open_files := path # open_files w\<rparr>) path = w"
  by (simp add: close_file_def)

lemma extract_outcome:
  "extract_gene_lengths w path =
     (case open_outcome w path of
        Inl e \<Rightarrow> (Inl e, w)
      | Inr text \<Rightarrow> (gene_lengths_loop (file_lines text) [], w))"
  by (simp add: extract_gene_lengths_def open_r_def close_open split: sum.splits)

lemma files_Some_iff: "files w path = Some text \<longleftrightarrow> open_outcome w path = Inr text"
  by (simp add: files_def split: sum.splits)

lemma files_None_iff: "files w path = None \<longleftrightarrow> (\<exists>e. open_outcome w path = Inl e)"
  by (simp add: files_def split: sum.splits)

lemma extract_Some:
  "files w path = Some text \<Longrightarrow>
   extract_gene_lengths w path = (gene_lengths_loop (file_lines text) [], w)"
  by (simp add: extract_outcome files_Some_iff)

lemma extract_failure:
  "open_outcome w path = Inl e \<Longrightarrow> extract_gene_lengths w path = (Inl e, w)"
  by (simp add: extract_outcome)

lemma files_one_file:
  "CHR 0x00 \<notin> set path \<Longrightarrow> files (one_file path text) path = Some text"
  by (simp add: files_def open_outcome_def one_file_def)

subsection \<open>Malformed and blank lines\<close>

lemma coordinates_None_iff:
  "coordinates line = None \<longleftrightarrow>
     length (line_fields line) < 3 \<or> isl (py_int (line_fields line ! 1)) \<or>
     isl (py_int (line_fields line ! 2))"
  by (auto simp: coordinates_def Let_def split: sum.splits)

lemma blank_fields:
  assumes "\<forall>c \<in> set line. is_space c"
  shows "line_fields line = []"
proof -
  have d: "dropWhile is_space line = []" using assms by simp
  have "str_strip line = []"
    by (simp only: str_strip_def d rev.simps dropWhile.simps)
  then show ?thesis by (simp add: line_fields_def str_split_def)
qed

lemma blank_is_data_line: "\<forall>c \<in> set line. is_space c \<Longrightarrow> is_data_line line"
  by (cases line) (auto simp: is_data_line_def str_startswith_def is_space_def)

lemma blank_gene_length:
  "\<forall>c \<in> set line. is_space c \<Longrightarrow> gene_length line = Inl IndexError"
  using blank_fields [of line] by (simp add: gene_length_def line_fields_def py_index_def)

subsection \<open>Lines that agree on their coordinates\<close>

lemma py_index_1: "py_index fs 1 = py_index (take 2 (drop 1 fs)) 0"
  by (cases fs) (auto simp: py_index_def)

lemma py_index_2: "py_index fs 2 = py_index (take 2 (drop 1 fs)) 1"
  by (cases fs) (auto simp: py_index_def)

lemma gene_length_agree:
  assumes "take 2 (drop 1 (line_fields la)) = take 2 (drop 1 (line_fields lb))"
  shows "gene_length la = gene_length lb"
proof -
  have f1: "py_index (str_split (str_strip la)) 1 = py_index (str_split (str_strip lb)) 1"
    using assms py_index_1 [of "line_fields la"] py_index_1 [of "line_fields lb"]
    by (simp only: line_fields_def)
  have f2: "py_index (str_split (str_strip la)) 2 = py_index (str_split (str_strip lb)) 2"
    using assms py_index_2 [of "line_fields la"] py_index_2 [of "line_fields lb"]
    by (simp only: line_fields_def)
  show ?thesis by (simp only: gene_length_def Let_def f1 f2)
qed

lemma loop_agree:
  "list_all2 agree_on_coordinates ls ls' \<Longrightarrow>
   gene_lengths_loop ls acc = gene_lengths_loop ls' acc"
proof (induction ls ls' arbitrary: acc rule: list_all2_induct)
  case Nil
  show ?case by simp
next
  case (Cons l ls l' ls')
  from Cons.hyps(1) consider "l = l'"
    | "\<not> str_startswith l ''>''" and "\<not> str_startswith l' ''>''"
      and "take 2 (drop 1 (line_fields l)) = take 2 (drop 1 (line_fields l'))"
    unfolding agree_on_coordinates_def is_data_line_def by blast
  then show ?case
  proof cases
    case 1
    then show ?thesis using Cons.IH by (simp split: sum.splits)
  next
    case 2
    from gene_length_agree [OF 2(3)] 2(1,2) show ?thesis
      using Cons.IH by (simp split: sum.splits)
  qed
qed

subsection \<open>The mask of the caller\<close>

lemma select_rows_filter:
  "select_rows rows (length_mask rows) = filter (\<lambda>row. snd row \<le> 100000) rows"
  by (induction rows) (auto simp: select_rows_def length_mask_def)

lemma DataFrame_values: "map snd (DataFrame xs) = xs"
  by (simp add: DataFrame_def)

subsection \<open>Evaluation\<close>

lemmas string_defs =
  str_startswith_def str_strip_def str_split_def is_space_def line_fields_def
  py_index_def py_int_def int_space_def is_digit_def digit_or_underscore_def
  decimal_value_def int_max_str_digits_def

subsection \<open>The scenario of the specification\<close>

lemma scenario_lines:
  "file_lines scenario_text =
     [''>scaffold1\<newline>'', ''CDS 1 300 + \<newline>'', ''CDS 500 250 -\<newline>'']"
  by (simp add: scenario_text_def file_lines_def)

lemma scenario_data_lines:
  "data_lines scenario_text = [''CDS 1 300 + \<newline>'', ''CDS 500 250 -\<newline>'']"
  by (simp add: data_lines_def scenario_lines is_data_line_def str_startswith_def)

lemma scenario_coordinates:
  "coordinates ''CDS 1 300 + \<newline>'' = Some (1, 300)"
  "coordinates ''CDS 500 250 -\<newline>'' = Some (500, 250)"
  by (simp_all add: coordinates_def string_defs)

subsection \<open>Well-formed files\<close>

lemma loop_well_formed:
  assumes "\<forall>line \<in> set ls. is_data_line line \<longrightarrow> coordinates line \<noteq> None"
  shows "\<exists>gs. gene_lengths_loop ls acc = Inr (acc @ gs) \<and>
    list_all2 (\<lambda>line g. \<exists>s e. coordinates line = Some (s, e) \<and> g = \<bar>e - s\<bar> + 1)
      (filter is_data_line ls) gs"
  using assms
proof (induction ls arbitrary: acc)
  case Nil
  show ?case by simp
next
  case (Cons l ls)
  from Cons.prems have rest: "\<forall>line \<in> set ls. is_data_line line \<longrightarrow> coordinates line \<noteq> None"
    by simp
  show ?case
  proof (cases "is_data_line l")
    case False
    moreover from False have "str_startswith l ''>''" by (simp add: is_data_line_def)
    ultimately show ?thesis using Cons.IH [OF rest, of acc] by simp
  next
    case True
    with Cons.prems obtain s e where c: "coordinates l = Some (s, e)" by auto
    from Cons.IH [OF rest, of "acc @ [\<bar>e - s\<bar> + 1]"] obtain gs
      where "gene_lengths_loop ls (acc @ [\<bar>e - s\<bar> + 1]) = Inr ((acc @ [\<bar>e - s\<bar> + 1]) @ gs)"
        and "list_all2 (\<lambda>line g. \<exists>s e. coordinates line = Some (s, e) \<and> g = \<bar>e - s\<bar> + 1)
               (filter is_data_line ls) gs"
      by blast
    moreover from True have "\<not> str_startswith l ''>''" by (simp add: is_data_line_def)
    ultimately show ?thesis using True c gene_length_coordinates [OF c]
      by (intro exI [of _ "(\<bar>e - s\<bar> + 1) # gs"]) simp
  qed
qed

section \<open>The claims\<close>



text \<open>
  Claim C2. When every data line of the file is well formed, the routine returns a
  list with one length per data line, in the order of the lines: it has as many
  elements as the file has data lines, and its element \<open>i\<close> is the span of data line \<open>i\<close>.
\<close>

theorem one_length_per_data_line:
  assumes "files w path = Some text"
    and "\<forall>line \<in> set (data_lines text). coordinates line \<noteq> None"
  shows "\<exists>gs. fst (extract_gene_lengths w path) = Inr gs \<and>
           length gs = length (data_lines text) \<and>
           (\<forall>i < length gs. \<exists>s e. coordinates (data_lines text ! i) = Some (s, e) \<and>
                                  gs ! i = \<bar>e - s\<bar> + 1)"
proof -
  from loop_well_formed [of "file_lines text" "[]"] assms(2) obtain gs
    where "gene_lengths_loop (file_lines text) [] = Inr gs"
      and "list_all2 (\<lambda>line g. \<exists>s e. coordinates line = Some (s, e) \<and> g = \<bar>e - s\<bar> + 1)
             (data_lines text) gs"
    unfolding data_lines_def by auto
  then show ?thesis
    by (auto simp: extract_Some [OF assms(1)] list_all2_conv_all_nth)
qed

theorem one_length_per_data_line_witness:
  "files (one_file ''run_tres.predict'' scenario_text) ''run_tres.predict'' = Some scenario_text \<and>
   list_all (\<lambda>line. coordinates line \<noteq> None) (data_lines scenario_text) \<and>
   length (data_lines scenario_text) = 2 \<and>
   fst (extract_gene_lengths (one_file ''run_tres.predict'' scenario_text) ''run_tres.predict'')
     = Inr [300, 251]"
proof -
  let ?w = "one_file ''run_tres.predict'' scenario_text"
  have f: "files ?w ''run_tres.predict'' = Some scenario_text"
    by (simp add: files_one_file)
  have wf: "\<forall>line \<in> set (data_lines scenario_text). coordinates line \<noteq> None"
    by (simp add: scenario_data_lines scenario_coordinates)
  from one_length_per_data_line [OF f wf] obtain gs
    where r: "fst (extract_gene_lengths ?w ''run_tres.predict'') = Inr gs"
      and n: "length gs = length (data_lines scenario_text)"
      and each: "\<forall>i < length gs. \<exists>s e. coordinates (data_lines scenario_text ! i) = Some (s, e) \<and>
                                  gs ! i = \<bar>e - s\<bar> + 1"
    by blast
  from n have len: "length gs = 2" by (simp add: scenario_data_lines)
  from each [rule_format, of 0] each [rule_format, of 1] len
  have "gs ! 0 = 300" and "gs ! 1 = 251"
    by (auto simp: scenario_data_lines scenario_coordinates)
  with len have "gs = [300, 251]"
    by (cases gs; cases "tl gs") auto
  with r f wf show ?thesis
    by (simp add: scenario_data_lines list_all_iff)
qed

text \<open>
  Claim C3. When some line of the file that is no header has fewer than three fields,
  or a field at index 1 or 2 that \<^verbatim>\<open>int\<close> rejects, the call as a whole raises
  \<^verbatim>\<open>IndexError\<close> or \<^verbatim>\<open>ValueError\<close>: the line is not skipped and no list is returned,
  whatever the other lines are.
\<close>

theorem malformed_line_fails:
  assumes "files w path = Some text"
    and "line \<in> set (file_lines text)"
    and "\<not> str_startswith line ''>''"
    and "length (line_fields line) < 3 \<or> isl (py_int (line_fields line ! 1)) \<or>
         isl (py_int (line_fields line ! 2))"
  shows "fst (extract_gene_lengths w path) = Inl IndexError \<or>
         fst (extract_gene_lengths w path) = Inl ValueError"
proof -
  from assms(4) have "coordinates line = None" by (simp add: coordinates_None_iff)
  then have "isl (gene_length line)" by (rule gene_length_malformed)
  moreover from assms(3) have "is_data_line line" by (simp add: is_data_line_def)
  ultimately show ?thesis
    using loop_some_error [OF assms(2), of "[]"] by (simp add: extract_Some [OF assms(1)])
qed

theorem malformed_line_fails_witness:
  "files (one_file ''run_tres.predict'' truncated_text) ''run_tres.predict'' = Some truncated_text \<and>
   ''CDS 5\<newline>'' \<in> set (file_lines truncated_text) \<and>
   \<not> str_startswith ''CDS 5\<newline>'' ''>'' \<and>
   length (line_fields ''CDS 5\<newline>'') < 3 \<and>
   isl (fst (extract_gene_lengths (one_file ''run_tres.predict'' truncated_text) ''run_tres.predict''))"
proof -
  let ?w = "one_file ''run_tres.predict'' truncated_text"
  have f: "files ?w ''run_tres.predict'' = Some truncated_text"
    by (simp add: files_one_file)
  have l: "''CDS 5\<newline>'' \<in> set (file_lines truncated_text)"
    by (simp add: truncated_text_def file_lines_def)
  have h: "\<not> str_startswith ''CDS 5\<newline>'' ''>''"
    by (simp add: str_startswith_def)
  have n: "length (line_fields ''CDS 5\<newline>'') < 3"
    by (simp add: string_defs)
  from n have "length (line_fields ''CDS 5\<newline>'') < 3 \<or>
      isl (py_int (line_fields ''CDS 5\<newline>'' ! 1)) \<or> isl (py_int (line_fields ''CDS 5\<newline>'' ! 2))"
    by (rule disjI1)
  from malformed_line_fails [OF f l h this]
  have "isl (fst (extract_gene_lengths ?w ''run_tres.predict''))" by auto
  with f l h n show ?thesis by simp
qed

text \<open>
  Claim C4, as amended. On a path that \<^verbatim>\<open>open\<close> cannot read the routine raises the
  exception of \<^verbatim>\<open>open\<close> and returns no list, empty or other. The caller does not catch
  it: when the path is \<^verbatim>\<open>run_tres.predict\<close>, the same exception leaves
  \<^verbatim>\<open>predicted_gene_lengths\<close> and \<^verbatim>\<open>df\<close> unassigned. The exception is
  \<^verbatim>\<open>FileNotFoundError\<close> when the path has no NUL character and the operating system
  reports that no such file or directory exists.
\<close>

theorem missing_file_raises:
  assumes "files w path = None"
  shows "\<exists>e. open_outcome w path = Inl e \<and>
           fst (extract_gene_lengths w path) = Inl e \<and>
           (path = file_path \<longrightarrow> fst (predicted_gene_lengths w) = Inl e \<and> df w = Inl e) \<and>
           (CHR 0x00 \<notin> set path \<and> os_open w path = Inl ENOENT \<longrightarrow> e = FileNotFoundError)"
proof -
  from assms obtain e where e: "open_outcome w path = Inl e"
    by (auto simp: files_None_iff)
  have "fst (extract_gene_lengths w path) = Inl e"
    by (simp add: extract_failure [OF e])
  moreover from this
  have "fst (predicted_gene_lengths w) = Inl e \<and> df w = Inl e" if "path = file_path"
    using that by (simp add: predicted_gene_lengths_def df_def)
  moreover have "e = FileNotFoundError"
    if "CHR 0x00 \<notin> set path \<and> os_open w path = Inl ENOENT"
    using that e by (simp add: open_outcome_def os_exception_def)
  ultimately show ?thesis using e by blast
qed

theorem missing_file_raises_witness:
  "files no_files file_path = None \<and>
   CHR 0x00 \<notin> set file_path \<and> os_open no_files file_path = Inl ENOENT \<and>
   fst (extract_gene_lengths no_files file_path) = Inl FileNotFoundError \<and>
   fst (predicted_gene_lengths no_files) = Inl FileNotFoundError \<and>
   df no_files = Inl FileNotFoundError"
proof -
  have n: "CHR 0x00 \<notin> set file_path" by (simp add: file_path_def)
  have o: "os_open no_files file_path = Inl ENOENT" by (simp add: no_files_def)
  have f: "files no_files file_path = None"
    by (simp add: files_def open_outcome_def n o)
  from missing_file_raises [OF f] obtain e
    where "fst (extract_gene_lengths no_files file_path) = Inl e"
      and "fst (predicted_gene_lengths no_files) = Inl e \<and> df no_files = Inl e"
      and "CHR 0x00 \<notin> set file_path \<and> os_open no_files file_path = Inl ENOENT
             \<longrightarrow> e = FileNotFoundError"
    by blast
  with n o f show ?thesis by simp
qed

text \<open>
  Claim C4 as it was stated promises \<^verbatim>\<open>FileNotFoundError\<close> for every path that names no
  file. A path with a NUL character names no file in any world, and \<^verbatim>\<open>open\<close> raises
  \<^verbatim>\<open>ValueError\<close> on it.
\<close>

theorem missing_file_error_counterexample:
  "files no_files nul_path = None \<and>
   fst (extract_gene_lengths no_files nul_path) = Inl ValueError \<and>
   fst (extract_gene_lengths no_files nul_path) \<noteq> Inl FileNotFoundError"
proof -
  have "open_outcome no_files nul_path = Inl ValueError"
    by (simp add: open_outcome_def nul_path_def)
  then show ?thesis by (simp add: files_def extract_failure)
qed

text \<open>
  Where the path is a directory, \<^verbatim>\<open>open\<close> raises \<^verbatim>\<open>IsADirectoryError\<close>, and the caller
  is left with that exception.
\<close>

lemma directory_raises:
  "files directory_world file_path = None \<and>
   fst (predicted_gene_lengths directory_world) = Inl IsADirectoryError \<and>
   df directory_world = Inl IsADirectoryError"
proof -
  have "open_outcome directory_world file_path = Inl IsADirectoryError"
    by (simp add: open_outcome_def directory_world_def file_path_def os_exception_def)
  then show ?thesis
    by (simp add: files_def extract_failure predicted_gene_lengths_def df_def)
qed

text \<open>
  Claim C5. The caller keeps the lengths that are at most 100000 and drops the ones
  above: the column of the filtered frame is the list of extracted lengths with
  exactly the values above 100000 removed, order and repetitions untouched. A length
  of 100000 stays and a length of 100001 goes.
\<close>

theorem threshold_keeps_up_to_100000:
  assumes "fst (predicted_gene_lengths w) = Inr lengths"
  shows "\<exists>rows. df w = Inr rows \<and> map snd rows = filter (\<lambda>v. v \<le> 100000) lengths"
proof -
  have "map snd (filter (\<lambda>row. snd row \<le> 100000) (DataFrame lengths)) =
        filter (\<lambda>v. v \<le> 100000) (map snd (DataFrame lengths))"
    by (simp add: filter_map comp_def)
  then show ?thesis using assms
    by (simp add: df_def select_rows_filter DataFrame_values)
qed

theorem threshold_keeps_up_to_100000_witness:
  "fst (predicted_gene_lengths (one_file file_path threshold_text)) = Inr [100000, 100001, 5] \<and>
   map_sum id (map snd) (df (one_file file_path threshold_text)) = Inr [100000, 5]"
proof -
  let ?w = "one_file file_path threshold_text"
  have lines: "file_lines threshold_text =
      [''g1 1 100000\<newline>'', ''g2 1 100001\<newline>'', ''g3 7 3\<newline>'']"
    by (simp add: threshold_text_def file_lines_def)
  have g: "gene_length ''g1 1 100000\<newline>'' = Inr 100000"
    "gene_length ''g2 1 100001\<newline>'' = Inr 100001"
    "gene_length ''g3 7 3\<newline>'' = Inr 5"
    by (simp_all add: gene_length_def string_defs)
  have p: "fst (predicted_gene_lengths ?w) = Inr [100000, 100001, 5]"
    by (simp add: predicted_gene_lengths_def extract_Some [of _ _ threshold_text] files_one_file file_path_def
        lines g str_startswith_def)
  from threshold_keeps_up_to_100000 [OF p] obtain rows
    where "df ?w = Inr rows" and "map snd rows = [100000, 5]" by auto
  with p show ?thesis by simp
qed

text \<open>
  Claim C6. A line that starts with \<^verbatim>\<open>>\<close> contributes nothing: the routine returns what
  its loop returns on the data lines alone. For a file that has only header lines the
  result is the empty list.
\<close>

theorem headers_contribute_nothing:
  assumes "files w path = Some text"
  shows "fst (extract_gene_lengths w path) = gene_lengths_loop (data_lines text) [] \<and>
         ((\<forall>line \<in> set (file_lines text). str_startswith line ''>'') \<longrightarrow>
            fst (extract_gene_lengths w path) = Inr [])"
proof -
  have "gene_lengths_loop (file_lines text) [] = gene_lengths_loop (data_lines text) []"
    by (simp add: data_lines_def loop_data_lines)
  moreover have "data_lines text = []"
    if "\<forall>line \<in> set (file_lines text). str_startswith line ''>''"
    using that by (simp add: data_lines_def is_data_line_def)
  ultimately show ?thesis
    by (auto simp: extract_Some [OF assms])
qed

theorem headers_contribute_nothing_witness:
  "files (one_file ''run_tres.predict'' headers_text) ''run_tres.predict'' = Some headers_text \<and>
   file_lines headers_text = [''>scaffold1\<newline>'', ''>scaffold2\<newline>''] \<and>
   fst (extract_gene_lengths (one_file ''run_tres.predict'' headers_text) ''run_tres.predict'')
     = Inr []"
proof -
  have f: "files (one_file ''run_tres.predict'' headers_text) ''run_tres.predict''
      = Some headers_text"
    by (simp add: files_one_file)
  have l: "file_lines headers_text = [''>scaffold1\<newline>'', ''>scaffold2\<newline>'']"
    by (simp add: headers_text_def file_lines_def)
  have h: "\<forall>line \<in> set (file_lines headers_text). str_startswith line ''>''"
    by (simp add: l str_startswith_def)
  from headers_contribute_nothing [OF f]
  have "(\<forall>line \<in> set (file_lines headers_text). str_startswith line ''>'') \<longrightarrow>
      fst (extract_gene_lengths (one_file ''run_tres.predict'' headers_text) ''run_tres.predict'')
        = Inr []"
    by (rule conjunct2)
  with h f l show ?thesis by simp
qed

text \<open>
  Claim C7. When every data line of the file is well formed, the routine returns a
  list, and every element of it is at least 1, whether the end coordinate lies after,
  at or before the start coordinate.
\<close>

theorem lengths_positive:
  assumes "files w path = Some text"
    and "\<forall>line \<in> set (data_lines text). coordinates line \<noteq> None"
  shows "\<exists>gs. fst (extract_gene_lengths w path) = Inr gs \<and> (\<forall>g \<in> set gs. 1 \<le> g)"
proof -
  from loop_well_formed [of "file_lines text" "[]"] assms(2) obtain gs
    where r: "gene_lengths_loop (file_lines text) [] = Inr gs"
      and each: "list_all2 (\<lambda>line g. \<exists>s e. coordinates line = Some (s, e) \<and> g = \<bar>e - s\<bar> + 1)
             (data_lines text) gs"
    unfolding data_lines_def by auto
  have "1 \<le> g" if "g \<in> set gs" for g
  proof -
    from that obtain i where "i < length gs" and "gs ! i = g"
      by (auto simp: in_set_conv_nth)
    with each obtain s e where "g = \<bar>e - s\<bar> + 1"
      by (auto simp: list_all2_conv_all_nth)
    then show ?thesis by simp
  qed
  with r show ?thesis by (simp add: extract_Some [OF assms(1)])
qed

theorem lengths_positive_witness:
  "files (one_file ''run_tres.predict'' reversed_text) ''run_tres.predict'' = Some reversed_text \<and>
   data_lines reversed_text = [''a 5 5\<newline>'', ''b 9 2\<newline>''] \<and>
   coordinates ''a 5 5\<newline>'' = Some (5, 5) \<and> coordinates ''b 9 2\<newline>'' = Some (9, 2) \<and>
   (case fst (extract_gene_lengths (one_file ''run_tres.predict'' reversed_text) ''run_tres.predict'')
    of Inl e \<Rightarrow> False | Inr gs \<Rightarrow> list_all (\<lambda>g. 1 \<le> g) gs)"
proof -
  have f: "files (one_file ''run_tres.predict'' reversed_text) ''run_tres.predict''
      = Some reversed_text"
    by (simp add: files_one_file)
  have d: "data_lines reversed_text = [''a 5 5\<newline>'', ''b 9 2\<newline>'']"
    by (simp add: reversed_text_def data_lines_def file_lines_def is_data_line_def
        str_startswith_def)
  have c: "coordinates ''a 5 5\<newline>'' = Some (5, 5)" "coordinates ''b 9 2\<newline>'' = Some (9, 2)"
    by (simp_all add: coordinates_def string_defs)
  have "\<forall>line \<in> set (data_lines reversed_text). coordinates line \<noteq> None"
    by (simp add: d c)
  from lengths_positive [OF f this] f d c show ?thesis
    by (auto simp: list_all_iff)
qed

text \<open>
  Claim C8. On data lines only the fields at indices 1 and 2 count. Let two files have
  lines that agree pairwise on their coordinates: a pair is either one and the same
  line, or two data lines with the same fields at indices 1 and 2, where field 0, the
  fields from index 3 on and the spacing may differ. Then the routine returns the same
  result on both, the raised exception included.
\<close>

theorem only_coordinates_matter:
  assumes "files w path = Some text" and "files w' path' = Some text'"
    and "list_all2 agree_on_coordinates (file_lines text) (file_lines text')"
  shows "fst (extract_gene_lengths w path) = fst (extract_gene_lengths w' path')"
  using loop_agree [OF assms(3), of "[]"]
  by (simp add: extract_Some [OF assms(1)] extract_Some [OF assms(2)])

theorem only_coordinates_matter_witness:
  "list_all2 agree_on_coordinates (file_lines scenario_text) (file_lines relabelled_text) \<and>
   scenario_text \<noteq> relabelled_text \<and>
   fst (extract_gene_lengths (one_file ''a.predict'' scenario_text) ''a.predict'') =
   fst (extract_gene_lengths (one_file ''b.predict'' relabelled_text) ''b.predict'')"
proof -
  have f: "files (one_file ''a.predict'' scenario_text) ''a.predict'' = Some scenario_text"
    and f': "files (one_file ''b.predict'' relabelled_text) ''b.predict'' = Some relabelled_text"
    by (simp_all add: files_one_file)
  have l': "file_lines relabelled_text =
      [''>scaffold1\<newline>'', ''gene7  1 300 - 0.98 note\<newline>'', ''x 500 250\<newline>'']"
    by (simp add: relabelled_text_def file_lines_def)
  have a: "list_all2 agree_on_coordinates (file_lines scenario_text) (file_lines relabelled_text)"
    by (simp add: scenario_lines l' agree_on_coordinates_def is_data_line_def
        str_startswith_def line_fields_def str_strip_def str_split_def is_space_def)
  have "scenario_text \<noteq> relabelled_text"
    by (simp add: scenario_text_def relabelled_text_def)
  with only_coordinates_matter [OF f f' a] a show ?thesis by simp
qed

text \<open>
  The header marker is not part of a data line. Putting \<^verbatim>\<open>>\<close> in front of the first
  field of a line that starts in column 0 turns the line into a header, which is
  skipped; the two files below do not agree on their coordinates in the sense above,
  and their results differ.
\<close>

lemma marker_makes_header:
  "\<not> agree_on_coordinates ''x 1 5\<newline>'' ''>x 1 5\<newline>'' \<and>
   gene_lengths_loop (file_lines ''x 1 5\<newline>'') [] = Inr [5] \<and>
   gene_lengths_loop (file_lines ''>x 1 5\<newline>'') [] = Inr []"
  by (simp add: agree_on_coordinates_def is_data_line_def file_lines_def gene_length_def
      string_defs)

text \<open>
  Claim C9. The routine leaves the world as it found it: no file is changed and the
  file object it opened is closed again, on return and on every exception. Its result
  depends on the text of the file alone: two calls that read the same text, under
  whatever paths and in whatever worlds, give the same result. More generally the
  result depends on the outcome of \<^verbatim>\<open>open\<close> alone, the text or the exception.
\<close>

theorem no_side_effect_and_deterministic:
  "snd (extract_gene_lengths w path) = w \<and>
   (files w path = Some text \<and> files w' path' = Some text \<longrightarrow>
      fst (extract_gene_lengths w path) = fst (extract_gene_lengths w' path')) \<and>
   (open_outcome w path = open_outcome w' path' \<longrightarrow>
      fst (extract_gene_lengths w path) = fst (extract_gene_lengths w' path'))"
proof -
  have "snd (extract_gene_lengths w path) = w"
    by (simp add: extract_outcome split: sum.splits)
  moreover have "fst (extract_gene_lengths w path) = fst (extract_gene_lengths w' path')"
    if "files w path = Some text \<and> files w' path' = Some text"
    using that by (simp add: extract_Some)
  moreover have "fst (extract_gene_lengths w path) = fst (extract_gene_lengths w' path')"
    if "open_outcome w path = open_outcome w' path'"
    using that by (simp add: extract_outcome split: sum.splits)
  ultimately show ?thesis by blast
qed

theorem no_side_effect_and_deterministic_witness:
  "files (one_file ''a.predict'' scenario_text) ''a.predict'' = Some scenario_text \<and>
   files busy_world ''b.predict'' = Some scenario_text \<and>
   fst (extract_gene_lengths (one_file ''a.predict'' scenario_text) ''a.predict'') =
     fst (extract_gene_lengths busy_world ''b.predict'') \<and>
   snd (extract_gene_lengths busy_world ''b.predict'') = busy_world"
proof -
  let ?w = "one_file ''a.predict'' scenario_text"
  have a: "files ?w ''a.predict'' = Some scenario_text"
    by (simp add: files_one_file)
  have b: "files busy_world ''b.predict'' = Some scenario_text"
    by (simp add: files_def open_outcome_def busy_world_def)
  from no_side_effect_and_deterministic
    [of ?w "''a.predict''" scenario_text busy_world "''b.predict''"] a b
  have "fst (extract_gene_lengths ?w ''a.predict'') =
      fst (extract_gene_lengths busy_world ''b.predict'')"
    by blast
  moreover from no_side_effect_and_deterministic [of busy_world "''b.predict''"]
  have "snd (extract_gene_lengths busy_world ''b.predict'') = busy_world"
    by blast
  ultimately show ?thesis using a b by simp
qed

lemma coordinates_not_isl: "coordinates line \<noteq> None \<Longrightarrow> \<not> isl (gene_length line)"
  by (auto dest: gene_length_coordinates)

text \<open>
  Claim C10, as amended. A line that is empty or all whitespace is no header, and it is
  not skipped: a file with such a line makes the call raise \<^verbatim>\<open>IndexError\<close> or
  \<^verbatim>\<open>ValueError\<close>. The exception is the \<^verbatim>\<open>IndexError\<close> of the blank line when every
  data line before it is well formed; otherwise an earlier line has raised first.
\<close>

theorem blank_line_fails:
  assumes "files w path = Some text"
    and "file_lines text = before @ blank # after"
    and "\<forall>c \<in> set blank. is_space c"
  shows "(fst (extract_gene_lengths w path) = Inl IndexError \<or>
          fst (extract_gene_lengths w path) = Inl ValueError) \<and>
         ((\<forall>line \<in> set before. is_data_line line \<longrightarrow> coordinates line \<noteq> None) \<longrightarrow>
            fst (extract_gene_lengths w path) = Inl IndexError)"
proof -
  note d = blank_is_data_line [OF assms(3)] and g = blank_gene_length [OF assms(3)]
  have "blank \<in> set (file_lines text)" by (simp add: assms(2))
  from loop_some_error [OF this d, of "[]"] g
  have "fst (extract_gene_lengths w path) = Inl IndexError \<or>
        fst (extract_gene_lengths w path) = Inl ValueError"
    by (simp add: extract_Some [OF assms(1)])
  moreover have "fst (extract_gene_lengths w path) = Inl IndexError"
    if "\<forall>line \<in> set before. is_data_line line \<longrightarrow> coordinates line \<noteq> None"
  proof -
    from that have "\<forall>l \<in> set before. is_data_line l \<longrightarrow> \<not> isl (gene_length l)"
      using coordinates_not_isl by blast
    from loop_first_error [OF this d g, of after "[]"] show ?thesis
      by (simp add: extract_Some [OF assms(1)] assms(2))
  qed
  ultimately show ?thesis by blast
qed

theorem blank_line_fails_witness:
  "files (one_file ''run_tres.predict'' blank_text) ''run_tres.predict'' = Some blank_text \<and>
   file_lines blank_text =
     [''>scaffold1\<newline>'', ''CDS 1 300 +\<newline>''] @ '' \<newline>'' # [''CDS 500 250 -\<newline>''] \<and>
   list_all is_space '' \<newline>'' \<and>
   coordinates ''CDS 1 300 +\<newline>'' = Some (1, 300) \<and>
   fst (extract_gene_lengths (one_file ''run_tres.predict'' blank_text) ''run_tres.predict'')
     = Inl IndexError"
proof -
  have f: "files (one_file ''run_tres.predict'' blank_text) ''run_tres.predict'' = Some blank_text"
    by (simp add: files_one_file)
  have l: "file_lines blank_text =
     [''>scaffold1\<newline>'', ''CDS 1 300 +\<newline>''] @ '' \<newline>'' # [''CDS 500 250 -\<newline>'']"
    by (simp add: blank_text_def file_lines_def)
  have s: "\<forall>c \<in> set '' \<newline>''. is_space c" by (simp add: is_space_def)
  have c: "coordinates ''CDS 1 300 +\<newline>'' = Some (1, 300)"
    by (simp add: coordinates_def string_defs)
  have "\<forall>line \<in> set [''>scaffold1\<newline>'', ''CDS 1 300 +\<newline>''].
      is_data_line line \<longrightarrow> coordinates line \<noteq> None"
    by (simp add: c is_data_line_def str_startswith_def)
  with blank_line_fails [OF f l s] f l s c show ?thesis
    by (simp add: list_all_iff)
qed

text \<open>
  Claim C10 as it was stated promises \<^verbatim>\<open>IndexError\<close> for every file with a blank line.
  In the file below the first line raises \<^verbatim>\<open>ValueError\<close> on \<^verbatim>\<open>int("one")\<close> before
  the empty second line is read.
\<close>

theorem blank_line_error_counterexample:
  "files (one_file ''run_tres.predict'' late_blank_text) ''run_tres.predict'' = Some late_blank_text \<and>
   file_lines late_blank_text = [''CDS one 300\<newline>'', ''\<newline>''] \<and>
   list_all is_space ''\<newline>'' \<and>
   fst (extract_gene_lengths (one_file ''run_tres.predict'' late_blank_text) ''run_tres.predict'')
     = Inl ValueError \<and>
   fst (extract_gene_lengths (one_file ''run_tres.predict'' late_blank_text) ''run_tres.predict'')
     \<noteq> Inl IndexError"
proof -
  have f: "files (one_file ''run_tres.predict'' late_blank_text) ''run_tres.predict''
      = Some late_blank_text"
    by (simp add: files_one_file)
  have l: "file_lines late_blank_text = [''CDS one 300\<newline>'', ''\<newline>'']"
    by (simp add: late_blank_text_def file_lines_def)
  have g: "gene_length ''CDS one 300\<newline>'' = Inl ValueError"
    by (simp add: gene_length_def string_defs)
  have "list_all is_space ''\<newline>''" by (simp add: is_space_def)
  with f l g show ?thesis
    by (simp add: extract_Some [OF f] str_startswith_def)
qed

end
